theory Spec2Isabelle
  imports Complex_Main
begin

section \<open>Reinforcement calculator (streamlit\_app.py)\<close>

text \<open>
  The script reads seven global inputs and fifteen per-bar overrides from the sidebar,
  calls \<open>calc_for_bar\<close> once for each of the five bar sizes, collects the returned
  dictionaries in \<open>rows\<close> and then walks \<open>rows\<close> to build the list \<open>warns\<close>.

  Numbers. A Python float is taken as the real number it denotes and \<open>+\<close>, \<open>-\<close>,
  \<open>*\<close>, \<open>/\<close> as exact. Three effects of the float type change what the code does and
  are written out: a quotient too large for a double is \<open>inf\<close>, which \<open>math.ceil\<close>
  refuses with OverflowError; a quotient too small for a double is \<open>0.0\<close>, whose ceiling
  is 0; and \<open>float("nan")\<close>, which the code uses as the value of an undefined spacing, is
  \<open>None\<close> of an option type. The rounding of a result to 53 bits is not followed.
  Python integers are \<open>int\<close>.
\<close>

subsection \<open>Python built-ins used by the script\<close>

datatype py_error = ZeroDivisionError | OverflowError

text \<open>\<open>x / y\<close> on floats raises ZeroDivisionError when the divisor is zero.\<close>

definition truediv :: "real \<Rightarrow> real \<Rightarrow> py_error + real" where
  "truediv x y = (if y = 0 then Inl ZeroDivisionError else Inr (x / y))"

text \<open>
  The least magnitude that round-to-nearest takes to \<open>inf\<close>: half an ulp above the
  largest double \<open>2^1024 - 2^971\<close>.
\<close>

definition FLT_OVERFLOW :: real where
  "FLT_OVERFLOW = 2 ^ 1024 - 2 ^ 970"

text \<open>
  The greatest magnitude that round-to-nearest takes to \<open>0.0\<close>: half of the least
  positive double \<open>2^-1074\<close> (the tie goes to the even neighbour, zero).
\<close>

definition FLT_UNDERFLOW :: real where
  "FLT_UNDERFLOW = 1 / 2 ^ 1075"

text \<open>
  \<open>math.ceil\<close> returns a Python integer and raises OverflowError on an infinity. Its
  argument here is the exact value of a float expression: from \<open>FLT_OVERFLOW\<close> on, the
  float is \<open>inf\<close>, and up to \<open>FLT_UNDERFLOW\<close> it is \<open>0.0\<close>.
\<close>

definition math_ceil :: "real \<Rightarrow> py_error + int" where
  "math_ceil x =
     (if FLT_OVERFLOW \<le> \<bar>x\<bar> then Inl OverflowError
      else if \<bar>x\<bar> \<le> FLT_UNDERFLOW then Inr 0
      else Inr \<lceil>x\<rceil>)"

text \<open>Rounding to the nearest integer, a tie going to the even neighbour.\<close>

definition round_half_even :: "real \<Rightarrow> int" where
  "round_half_even x =
     (let f = \<lfloor>x\<rfloor>; r = x - of_int f
      in if r < 1 / 2 then f
         else if 1 / 2 < r then f + 1
         else if even f then f else f + 1)"

text \<open>
  \<open>round(x, ndigits)\<close> for a float and \<open>ndigits \<ge> 0\<close>: the decimal with \<open>ndigits\<close>
  digits after the point nearest to \<open>x\<close>, ties to even.
\<close>

definition py_round :: "real \<Rightarrow> nat \<Rightarrow> real" where
  "py_round x ndigits = of_int (round_half_even (x * 10 ^ ndigits)) / 10 ^ ndigits"

subsection \<open>Constants and data\<close>

definition MM_PER_IN :: real where
  "MM_PER_IN = 25.4"

definition MM_PER_FT :: real where
  "MM_PER_FT = 304.8"

text \<open>The sidebar: every \<open>st.number_input\<close> of the script, under the script's variable names.\<close>

record sidebar =
  in_A_s :: real
  in_L_wall_ft :: real
  in_t_wall_mm :: real
  in_d_c_mm :: real
  in_l_inf_m :: real
  in_L_s_mm :: real
  in_t_slab_mm :: real
  in_d10 :: real
  in_d20 :: real
  in_d30 :: real
  in_d15 :: real
  in_d25 :: real
  in_A10 :: real
  in_A20 :: real
  in_A30 :: real
  in_A15 :: real
  in_A25 :: real
  in_h10 :: real
  in_h20 :: real
  in_h30 :: real
  in_h15 :: real
  in_h25 :: real

text \<open>The \<open>value=\<close> argument of each input.\<close>

definition default_sidebar :: sidebar where
  "default_sidebar =
     \<lparr>in_A_s = 7416.0, in_L_wall_ft = 13.6, in_t_wall_mm = 254.0,
      in_d_c_mm = 38.0, in_l_inf_m = 2.0, in_L_s_mm = 5700.0, in_t_slab_mm = 300.0,
      in_d10 = 11.3, in_d20 = 19.5, in_d30 = 29.9, in_d15 = 16.0, in_d25 = 25.2,
      in_A10 = 100.0, in_A20 = 300.0, in_A30 = 700.0, in_A15 = 200.0, in_A25 = 500.0,
      in_h10 = 200.0, in_h20 = 300.0, in_h30 = 500.0, in_h15 = 250.0, in_h25 = 400.0\<rparr>"

text \<open>One entry of the list \<open>bars\<close>.\<close>

record bar =
  label :: string
  dia :: real
  area :: real
  hook :: real

definition bars :: "sidebar \<Rightarrow> bar list" where
  "bars sb =
     [\<lparr>label = ''10M'', dia = in_d10 sb, area = in_A10 sb, hook = in_h10 sb\<rparr>,
      \<lparr>label = ''15M'', dia = in_d15 sb, area = in_A15 sb, hook = in_h15 sb\<rparr>,
      \<lparr>label = ''20M'', dia = in_d20 sb, area = in_A20 sb, hook = in_h20 sb\<rparr>,
      \<lparr>label = ''25M'', dia = in_d25 sb, area = in_A25 sb, hook = in_h25 sb\<rparr>,
      \<lparr>label = ''30M'', dia = in_d30 sb, area = in_A30 sb, hook = in_h30 sb\<rparr>]"

text \<open>
  The dictionary returned by \<open>calc_for_bar\<close>, one field per key, in the order of the
  keys: Bar, Dia (mm), Area/bar (mm2), Bars (\#), Spacing (in O.C.), d (mm), l\_db (mm),
  l\_span (mm), l\_add (mm), L\_req (ft), L\_03ln (ft), Governing length (ft).
\<close>

record row =
  col_Bar :: string
  col_Dia :: real
  col_Area_bar :: real
  col_Bars :: int
  col_Spacing :: "real option"
  col_d :: real
  col_l_db :: real
  col_l_span :: real
  col_l_add :: real
  col_L_req :: real
  col_L_03ln :: real
  col_Governing :: real

subsection \<open>The locals of \<open>calc_for_bar\<close>\<close>

definition n_bars :: "real \<Rightarrow> real \<Rightarrow> py_error + int" where
  "n_bars A_s_mm2 area_per_bar_mm2 =
     (if A_s_mm2 > 0
      then (case truediv A_s_mm2 (max area_per_bar_mm2 (1 / 10 ^ 9)) of
              Inl e \<Rightarrow> Inl e
            | Inr q \<Rightarrow> math_ceil q)
      else Inr 0)"

text \<open>\<open>None\<close> is \<open>float("nan")\<close>; the division is by the integer \<open>n_bars - 1\<close>.\<close>

definition spacing_in :: "real \<Rightarrow> int \<Rightarrow> py_error + real option" where
  "spacing_in L_wall_ft n =
     (if n \<ge> 2
      then (case truediv (L_wall_ft * 12.0) (of_int (n - 1)) of
              Inl e \<Rightarrow> Inl e
            | Inr s \<Rightarrow> Inr (Some s))
      else Inr None)"

definition d_effective_mm :: "real \<Rightarrow> real \<Rightarrow> real" where
  "d_effective_mm t_slab_mm dia_mm = t_slab_mm - dia_mm / 2.0 - 40.0"

definition l_db_mm :: "real \<Rightarrow> real" where
  "l_db_mm dia_mm = 16.0 * dia_mm"

definition l_span_mm :: "real \<Rightarrow> real" where
  "l_span_mm L_s_mm = L_s_mm / 16.0"

definition l_add_mm :: "real \<Rightarrow> real \<Rightarrow> real \<Rightarrow> real" where
  "l_add_mm t_slab_mm dia_mm L_s_mm =
     max (max (d_effective_mm t_slab_mm dia_mm) (l_db_mm dia_mm)) (l_span_mm L_s_mm)"

definition L_req_mm :: "real \<Rightarrow> real \<Rightarrow> real \<Rightarrow> real \<Rightarrow> real \<Rightarrow> real" where
  "L_req_mm l_inf_m t_wall_mm hook_len_mm d_c_mm l_add =
     (l_inf_m * 1000.0) + t_wall_mm + hook_len_mm - d_c_mm + l_add"

definition L_03ln_mm :: "real \<Rightarrow> real \<Rightarrow> real \<Rightarrow> real \<Rightarrow> real" where
  "L_03ln_mm L_s_mm t_wall_mm hook_len_mm d_c_mm =
     0.3 * L_s_mm + t_wall_mm + hook_len_mm - d_c_mm"

subsection \<open>\<open>calc_for_bar\<close>\<close>

definition calc_for_bar ::
  "real \<Rightarrow> real \<Rightarrow> real \<Rightarrow> real \<Rightarrow> real \<Rightarrow> real \<Rightarrow> real \<Rightarrow>
   string \<Rightarrow> real \<Rightarrow> real \<Rightarrow> real \<Rightarrow> py_error + row" where
  "calc_for_bar A_s_mm2 L_wall_ft t_wall_mm d_c_mm l_inf_m L_s_mm t_slab_mm
                bar_label dia_mm area_per_bar_mm2 hook_len_mm =
     (case n_bars A_s_mm2 area_per_bar_mm2 of
        Inl e \<Rightarrow> Inl e
      | Inr n \<Rightarrow>
     (case spacing_in L_wall_ft n of
        Inl e \<Rightarrow> Inl e
      | Inr spacing \<Rightarrow>
     (let d_eff = d_effective_mm t_slab_mm dia_mm;
          l_db = l_db_mm dia_mm;
          l_span = l_span_mm L_s_mm;
          l_add = l_add_mm t_slab_mm dia_mm L_s_mm;
          L_req_ft = L_req_mm l_inf_m t_wall_mm hook_len_mm d_c_mm l_add / MM_PER_FT;
          L_03ln_ft = L_03ln_mm L_s_mm t_wall_mm hook_len_mm d_c_mm / MM_PER_FT;
          governing_ft = max L_req_ft L_03ln_ft
      in Inr \<lparr>col_Bar = bar_label,
              col_Dia = py_round dia_mm 2,
              col_Area_bar = py_round area_per_bar_mm2 1,
              col_Bars = n,
              col_Spacing = (case spacing of None \<Rightarrow> None | Some s \<Rightarrow> Some (py_round s 2)),
              col_d = py_round d_eff 1,
              col_l_db = py_round l_db 1,
              col_l_span = py_round l_span 1,
              col_l_add = py_round l_add 1,
              col_L_req = py_round L_req_ft 3,
              col_L_03ln = py_round L_03ln_ft 3,
              col_Governing = py_round governing_ft 3\<rparr>)))"

subsection \<open>The script: \<open>rows\<close> and \<open>warns\<close>\<close>

text \<open>
  The body of the first loop: \<open>calc_for_bar\<close> on the seven global inputs and the four
  entries of the bar \<open>b\<close>.
\<close>

definition calc_bar :: "sidebar \<Rightarrow> bar \<Rightarrow> py_error + row" where
  "calc_bar sb b =
     calc_for_bar (in_A_s sb) (in_L_wall_ft sb) (in_t_wall_mm sb) (in_d_c_mm sb)
                  (in_l_inf_m sb) (in_L_s_mm sb) (in_t_slab_mm sb)
                  (label b) (dia b) (area b) (hook b)"

text \<open>
  \<open>for b in bars: rows.append(calc_for_bar(...))\<close>, starting from \<open>rows = []\<close>. An
  exception raised for one bar ends the script, so no list is built.
\<close>

fun rows_loop :: "sidebar \<Rightarrow> bar list \<Rightarrow> row list \<Rightarrow> py_error + row list" where
  "rows_loop sb [] rows = Inr rows"
| "rows_loop sb (b # bs) rows =
     (case calc_bar sb b of
        Inl e \<Rightarrow> Inl e
      | Inr r \<Rightarrow> rows_loop sb bs (rows @ [r]))"

definition rows :: "sidebar \<Rightarrow> py_error + row list" where
  "rows sb = rows_loop sb (bars sb) []"

text \<open>
  The two messages of the second loop. Each is an f-string built from the row's bar label
  and one number of the row; the constructor keeps the label and the number.
\<close>

datatype warning =
  Only_bars string int
| Negative_depth string real

fun warns_loop :: "row list \<Rightarrow> warning list \<Rightarrow> warning list" where
  "warns_loop [] warns = warns"
| "warns_loop (r # rs) warns =
     (let warns1 = (if col_Bars r \<le> 1
                    then warns @ [Only_bars (col_Bar r) (col_Bars r)] else warns);
          warns2 = (if col_d r < 0
                    then warns1 @ [Negative_depth (col_Bar r) (col_d r)] else warns1)
      in warns_loop rs warns2)"

definition warns :: "sidebar \<Rightarrow> py_error + warning list" where
  "warns sb = (case rows sb of Inl e \<Rightarrow> Inl e | Inr rs \<Rightarrow> Inr (warns_loop rs []))"

subsection \<open>Reading the results\<close>

text \<open>The bar labels that received the negative-depth message, in the order of emission.\<close>

fun negative_depth_labels :: "warning list \<Rightarrow> string list" where
  "negative_depth_labels [] = []"
| "negative_depth_labels (Only_bars l n # ws) = negative_depth_labels ws"
| "negative_depth_labels (Negative_depth l v # ws) = l # negative_depth_labels ws"

section \<open>Properties\<close>

subsection \<open>Rounding\<close>

lemma round_half_even_mono:
  assumes "x \<le> y" shows "round_half_even x \<le> round_half_even y"
proof (cases "\<lfloor>x\<rfloor> = \<lfloor>y\<rfloor>")
  case True
  with assms show ?thesis
    unfolding round_half_even_def Let_def by auto
next
  case False
  with assms have lt: "\<lfloor>x\<rfloor> < \<lfloor>y\<rfloor>"
    using floor_mono [of x y] by linarith
  have a: "round_half_even x \<le> \<lfloor>x\<rfloor> + 1"
    unfolding round_half_even_def Let_def by auto
  have b: "\<lfloor>y\<rfloor> \<le> round_half_even y"
    unfolding round_half_even_def Let_def by auto
  from lt a b show ?thesis by linarith
qed

lemma py_round_mono: "x \<le> y \<Longrightarrow> py_round x n \<le> py_round y n"
  unfolding py_round_def
  by (intro divide_right_mono) (auto intro!: round_half_even_mono mult_right_mono)

lemma py_round_max: "py_round (max x y) n = max (py_round x n) (py_round y n)"
proof (cases "x \<le> y")
  case True
  then show ?thesis using py_round_mono [of x y n] by (simp add: max_def)
next
  case False
  then have "y \<le> x" by simp
  then show ?thesis using py_round_mono [of y x n] by (simp add: max_def)
qed

lemma py_round_nonneg: "0 \<le> x \<Longrightarrow> 0 \<le> py_round x n"
  using py_round_mono [of 0 x n] by (simp add: py_round_def round_half_even_def)

subsection \<open>What \<open>calc_for_bar\<close> returns, and when\<close>

lemma truediv_Inr: "y \<noteq> 0 \<Longrightarrow> truediv x y = Inr (x / y)"
  by (simp add: truediv_def)

lemma n_bars_Inr_iff:
  "n_bars A a = Inr n \<longleftrightarrow>
     (if A > 0
      then A / max a (1 / 10 ^ 9) < FLT_OVERFLOW
         \<and> n = (if A / max a (1 / 10 ^ 9) \<le> FLT_UNDERFLOW then 0
                else \<lceil>A / max a (1 / 10 ^ 9)\<rceil>)
      else n = 0)"
proof -
  define m :: real where "m = max a (1 / 10 ^ 9)"
  have pos: "0 < m" by (simp add: m_def less_max_iff_disj)
  have unfold: "n_bars A a = (if A > 0 then math_ceil (A / m) else Inr 0)"
    unfolding n_bars_def truediv_def m_def [symmetric] using pos by simp
  show ?thesis
  proof (cases "A > 0")
    case True
    from True pos have "0 < A / m" by (rule divide_pos_pos)
    then have "\<bar>A / m\<bar> = A / m" by (rule abs_of_pos)
    with True show ?thesis
      unfolding unfold m_def [symmetric] by (auto simp: math_ceil_def not_le)
  next
    case False
    then show ?thesis unfolding unfold by auto
  qed
qed

lemma spacing_in_eq:
  "spacing_in L n = Inr (if n \<ge> 2 then Some (L * 12 / of_int (n - 1)) else None)"
  by (simp add: spacing_in_def truediv_def)

lemma calc_for_bar_Inr:
  assumes "calc_for_bar A L tw dc li Ls ts lbl dm a h = Inr r"
  shows "n_bars A a = Inr (col_Bars r)"
    and "col_Bar r = lbl"
    and "col_Dia r = py_round dm 2"
    and "col_Area_bar r = py_round a 1"
    and "col_Spacing r =
           (if col_Bars r \<ge> 2 then Some (py_round (L * 12 / of_int (col_Bars r - 1)) 2) else None)"
    and "col_d r = py_round (d_effective_mm ts dm) 1"
    and "col_l_db r = py_round (l_db_mm dm) 1"
    and "col_l_span r = py_round (l_span_mm Ls) 1"
    and "col_l_add r = py_round (l_add_mm ts dm Ls) 1"
    and "col_L_req r = py_round (L_req_mm li tw h dc (l_add_mm ts dm Ls) / MM_PER_FT) 3"
    and "col_L_03ln r = py_round (L_03ln_mm Ls tw h dc / MM_PER_FT) 3"
    and "col_Governing r =
           py_round (max (L_req_mm li tw h dc (l_add_mm ts dm Ls) / MM_PER_FT)
                         (L_03ln_mm Ls tw h dc / MM_PER_FT)) 3"
  using assms
  by (auto simp: calc_for_bar_def spacing_in_eq Let_def split: sum.splits)

lemma calc_for_bar_returns:
  "(\<exists>r. calc_for_bar A L tw dc li Ls ts lbl dm a h = Inr r) \<longleftrightarrow>
     A / max a (1 / 10 ^ 9) < FLT_OVERFLOW"
proof -
  have pos: "0 < max a (1 / 10 ^ 9)" by (simp add: less_max_iff_disj)
  have fpos: "0 < FLT_OVERFLOW" by (simp add: FLT_OVERFLOW_def)
  have "(\<exists>r. calc_for_bar A L tw dc li Ls ts lbl dm a h = Inr r) \<longleftrightarrow> (\<exists>n. n_bars A a = Inr n)"
    by (auto simp: calc_for_bar_def spacing_in_eq Let_def split: sum.splits)
  also have "\<dots> \<longleftrightarrow> A / max a (1 / 10 ^ 9) < FLT_OVERFLOW"
  proof (cases "A > 0")
    case True
    then show ?thesis by (simp add: n_bars_Inr_iff)
  next
    case False
    then have "A / max a (1 / 10 ^ 9) \<le> 0"
      using pos by (simp add: divide_le_0_iff)
    with fpos have "A / max a (1 / 10 ^ 9) < FLT_OVERFLOW" by linarith
    with False show ?thesis by (simp add: n_bars_Inr_iff)
  qed
  finally show ?thesis .
qed

subsection \<open>Evaluation at the default inputs\<close>

lemmas calc_defs =
  calc_for_bar_def n_bars_def spacing_in_def truediv_def math_ceil_def FLT_OVERFLOW_def
  FLT_UNDERFLOW_def d_effective_mm_def l_db_mm_def l_span_mm_def l_add_mm_def L_req_mm_def L_03ln_mm_def
  MM_PER_FT_def py_round_def round_half_even_def Let_def

lemma default_20M_returns:
  "calc_for_bar 7416.0 13.6 254.0 38.0 2.0 5700.0 300.0 ''20M'' 19.5 300 300 =
     Inr \<lparr>col_Bar = ''20M'', col_Dia = 19.5, col_Area_bar = 300, col_Bars = 25,
          col_Spacing = Some 6.8, col_d = 250.2, col_l_db = 312.0, col_l_span = 356.2,
          col_l_add = 356.2, col_L_req = 9.423, col_L_03ln = 7.303, col_Governing = 9.423\<rparr>"
  by (simp add: calc_defs)



subsection \<open>The claims about one call of \<open>calc_for_bar\<close>\<close>



text \<open>
  C2. In every returned dictionary the governing length is the larger of L\_req and
  L\_03ln, and l\_add is the largest of d, l\_db and l\_span, so it is at least each of
  them. The fields are the rounded ones; rounding is monotone, so it commutes with
  \<open>max\<close>.
\<close>

theorem row_max_invariants:
  assumes "calc_for_bar A L tw dc li Ls ts lbl dm a h = Inr r"
  shows "col_Governing r = max (col_L_req r) (col_L_03ln r)
       \<and> col_l_add r = max (max (col_d r) (col_l_db r)) (col_l_span r)
       \<and> col_d r \<le> col_l_add r \<and> col_l_db r \<le> col_l_add r \<and> col_l_span r \<le> col_l_add r"
proof -
  note f = calc_for_bar_Inr [OF assms]
  have g: "col_Governing r = max (col_L_req r) (col_L_03ln r)"
    by (simp only: f py_round_max)
  have a: "col_l_add r = max (max (col_d r) (col_l_db r)) (col_l_span r)"
    by (simp only: f l_add_mm_def py_round_max)
  from g a show ?thesis by (simp add: le_max_iff_disj)
qed

text \<open>C2 at the default inputs and the 20M bar.\<close>

theorem row_max_invariants_witness:
  "(case calc_for_bar 7416.0 13.6 254.0 38.0 2.0 5700.0 300.0 ''20M'' 19.5 300 300 of
      Inl e \<Rightarrow> False
    | Inr r \<Rightarrow> col_Governing r = max (col_L_req r) (col_L_03ln r)
       \<and> col_l_add r = max (max (col_d r) (col_l_db r)) (col_l_span r)
       \<and> col_d r \<le> col_l_add r \<and> col_l_db r \<le> col_l_add r \<and> col_l_span r \<le> col_l_add r)"
  using row_max_invariants [OF default_20M_returns]
  unfolding default_20M_returns by simp

text \<open>
  C3. With a required area of \<open>5e-324\<close>, the least positive double \<open>2^-1074\<close>, and the
  default 30M bar of 700 mm2 the quotient \<open>5e-324 / 700\<close> is below half of the least
  positive double, so it is \<open>0.0\<close> and its ceiling is 0: the call returns 0 bars for a
  positive required area, and 0 bars do not cover it.
\<close>

theorem tiny_area_zero_bars:
  "map_sum id col_Bars
     (calc_for_bar (1 / 2 ^ 1074) 13.6 254.0 38.0 2.0 5700.0 300.0 ''30M'' 29.9 700 500) = Inr 0
   \<and> (0 :: real) < 1 / 2 ^ 1074
   \<and> \<not> (1 / 2 ^ 1074 :: real) \<le> of_int 0 * max 700 (1 / 10 ^ 9)"
  by (simp add: calc_defs)




text \<open>
  C7. With a required area of \<open>1e300\<close> and an area per bar of 0 the quotient
  \<open>1e300 / 1e-9\<close> is beyond the doubles, so it is \<open>inf\<close> and \<open>math.ceil\<close> raises
  OverflowError: the call returns no dictionary. (\<open>calc_for_bar_returns\<close> above says that
  this overflow is the only way the call can fail.)
\<close>

theorem huge_area_zero_bar_area_raises:
  "calc_for_bar (10 ^ 300) 13.6 254.0 38.0 2.0 5700.0 300.0 ''20M'' 19.5 0 300 =
     Inl OverflowError"
  by (simp add: calc_for_bar_def n_bars_def truediv_def math_ceil_def FLT_OVERFLOW_def)

text \<open>
  C10. For a non-negative diameter the add-on length is non-negative whatever the sign of
  the effective depth, since \<open>16 * dia\<close> is one of the candidates of the \<open>max\<close>. So L\_req
  in mm is at least \<open>l_inf_m * 1000 + t_wall_mm + hook_len_mm - d_c_mm\<close>, and in the
  returned dictionary l\_add is non-negative and L\_req is at least that base length in
  feet, rounded.
\<close>

theorem add_on_length_nonneg:
  assumes "0 \<le> dm"
  shows "0 \<le> l_add_mm ts dm Ls
       \<and> li * 1000 + tw + h - dc \<le> L_req_mm li tw h dc (l_add_mm ts dm Ls)
       \<and> (calc_for_bar A L tw dc li Ls ts lbl dm a h = Inr r \<longrightarrow>
            0 \<le> col_l_add r
          \<and> py_round ((li * 1000 + tw + h - dc) / MM_PER_FT) 3 \<le> col_L_req r)"
proof -
  from assms have "0 \<le> l_db_mm dm" by (simp add: l_db_mm_def)
  then have 1: "0 \<le> l_add_mm ts dm Ls" by (simp add: l_add_mm_def le_max_iff_disj)
  then have 2: "li * 1000 + tw + h - dc \<le> L_req_mm li tw h dc (l_add_mm ts dm Ls)"
    by (simp add: L_req_mm_def)
  have 3: "0 \<le> col_l_add r \<and> py_round ((li * 1000 + tw + h - dc) / MM_PER_FT) 3 \<le> col_L_req r"
    if ret: "calc_for_bar A L tw dc li Ls ts lbl dm a h = Inr r"
  proof -
    have "(li * 1000 + tw + h - dc) / MM_PER_FT
            \<le> L_req_mm li tw h dc (l_add_mm ts dm Ls) / MM_PER_FT"
      using 2 by (intro divide_right_mono) (simp_all add: MM_PER_FT_def)
    then have "py_round ((li * 1000 + tw + h - dc) / MM_PER_FT) 3 \<le> col_L_req r"
      unfolding calc_for_bar_Inr(10) [OF ret] by (rule py_round_mono)
    moreover have "0 \<le> col_l_add r"
      unfolding calc_for_bar_Inr(9) [OF ret] using 1 by (rule py_round_nonneg)
    ultimately show ?thesis by simp
  qed
  from 1 2 3 show ?thesis by blast
qed

text \<open>C10 at a 30 mm slab and the 30M bar, where the effective depth is negative.\<close>

theorem add_on_length_nonneg_witness:
  "(0 :: real) \<le> 29.9 \<and> d_effective_mm 30.0 29.9 < 0
   \<and> 0 \<le> l_add_mm 30.0 29.9 5700.0
   \<and> (2.0 * 1000 + 254.0 + 500.0 - 38.0 :: real)
        \<le> L_req_mm 2.0 254.0 500.0 38.0 (l_add_mm 30.0 29.9 5700.0)"
proof -
  have "(0 :: real) \<le> 29.9" by simp
  from add_on_length_nonneg [OF this, of "30.0" "5700.0" "2.0" "254.0" "500.0" "38.0"]
  show ?thesis by (simp add: d_effective_mm_def)
qed

subsection \<open>The two loops of the script\<close>

lemma rows_loop_Inr_iff:
  "rows_loop sb bs acc = Inr rs \<longleftrightarrow>
     (\<exists>rs'. rs = acc @ rs' \<and> list_all2 (\<lambda>b r. calc_bar sb b = Inr r) bs rs')"
proof (induction bs arbitrary: acc)
  case Nil
  then show ?case by auto
next
  case (Cons b bs)
  show ?case
  proof (cases "calc_bar sb b")
    case (Inl e)
    then show ?thesis by (simp add: list_all2_Cons1)
  next
    case (Inr r)
    then show ?thesis by (auto simp: Cons.IH list_all2_Cons1)
  qed
qed

lemma rows_Inr_iff:
  "rows sb = Inr rs \<longleftrightarrow> list_all2 (\<lambda>b r. calc_bar sb b = Inr r) (bars sb) rs"
  by (simp add: rows_def rows_loop_Inr_iff)

lemma length_bars: "length (bars sb) = 5"
  by (simp add: bars_def)

lemma labels_bars: "map label (bars sb) = [''10M'', ''15M'', ''20M'', ''25M'', ''30M'']"
  by (simp add: bars_def)

lemma calc_bar_Inr:
  assumes "calc_bar sb b = Inr r"
  shows "col_Bar r = label b"
  using assms unfolding calc_bar_def by (simp add: calc_for_bar_Inr)

lemma rows_labels:
  assumes "rows sb = Inr rs"
  shows "map col_Bar rs = map label (bars sb)"
proof -
  from assms have "list_all2 (\<lambda>b r. calc_bar sb b = Inr r) (bars sb) rs"
    by (simp add: rows_Inr_iff)
  then have "list_all2 (\<lambda>b r. col_Bar r = label b) (bars sb) rs"
    by (rule list_all2_mono) (simp add: calc_bar_Inr)
  then show ?thesis
    by (induction rule: list_all2_induct) simp_all
qed

lemma calc_bar_globals:
  assumes "in_A_s sb' = in_A_s sb" "in_L_wall_ft sb' = in_L_wall_ft sb"
    "in_t_wall_mm sb' = in_t_wall_mm sb" "in_d_c_mm sb' = in_d_c_mm sb"
    "in_l_inf_m sb' = in_l_inf_m sb" "in_L_s_mm sb' = in_L_s_mm sb"
    "in_t_slab_mm sb' = in_t_slab_mm sb"
  shows "calc_bar sb' b = calc_bar sb b"
  using assms by (simp add: calc_bar_def)

text \<open>
  Whenever the first loop ends without an exception, \<open>rows\<close> has exactly five
  dictionaries, labelled 10M, 15M, 20M, 25M, 30M in this order, and the one at position
  \<open>i\<close> is what \<open>calc_for_bar\<close> returns for the seven global inputs and the bar at
  position \<open>i\<close>. So it is the same for any other sidebar with the same global inputs and
  the same bar at position \<open>i\<close> on which the loop ends, whatever its other bars are.
\<close>

lemma rows_five_in_order:
  assumes "rows sb = Inr rs"
  shows "length rs = 5
       \<and> map col_Bar rs = [''10M'', ''15M'', ''20M'', ''25M'', ''30M'']
       \<and> (\<forall>i<5. calc_bar sb (bars sb ! i) = Inr (rs ! i))
       \<and> (\<forall>sb' rs' i. rows sb' = Inr rs'
            \<and> in_A_s sb' = in_A_s sb \<and> in_L_wall_ft sb' = in_L_wall_ft sb
            \<and> in_t_wall_mm sb' = in_t_wall_mm sb \<and> in_d_c_mm sb' = in_d_c_mm sb
            \<and> in_l_inf_m sb' = in_l_inf_m sb \<and> in_L_s_mm sb' = in_L_s_mm sb
            \<and> in_t_slab_mm sb' = in_t_slab_mm sb
            \<and> i < 5 \<and> bars sb' ! i = bars sb ! i
            \<longrightarrow> rs' ! i = rs ! i)"
proof -
  from assms have all: "list_all2 (\<lambda>b r. calc_bar sb b = Inr r) (bars sb) rs"
    by (simp add: rows_Inr_iff)
  then have len: "length rs = 5"
    using list_all2_lengthD [OF all] by (simp add: length_bars)
  have lab: "map col_Bar rs = [''10M'', ''15M'', ''20M'', ''25M'', ''30M'']"
    using rows_labels [OF assms] by (simp add: labels_bars)
  have nth: "calc_bar sb (bars sb ! i) = Inr (rs ! i)" if "i < 5" for i
    using list_all2_nthD [OF all, of i] that by (simp add: length_bars)
  have indep: "rs' ! i = rs ! i"
    if r': "rows sb' = Inr rs'"
      and g: "in_A_s sb' = in_A_s sb" "in_L_wall_ft sb' = in_L_wall_ft sb"
        "in_t_wall_mm sb' = in_t_wall_mm sb" "in_d_c_mm sb' = in_d_c_mm sb"
        "in_l_inf_m sb' = in_l_inf_m sb" "in_L_s_mm sb' = in_L_s_mm sb"
        "in_t_slab_mm sb' = in_t_slab_mm sb"
      and i: "i < 5" and b: "bars sb' ! i = bars sb ! i"
    for sb' rs' i
  proof -
    from r' have "list_all2 (\<lambda>b r. calc_bar sb' b = Inr r) (bars sb') rs'"
      by (simp add: rows_Inr_iff)
    from list_all2_nthD [OF this, of i] i
    have "calc_bar sb' (bars sb' ! i) = Inr (rs' ! i)" by (simp add: length_bars)
    then have "calc_bar sb (bars sb ! i) = Inr (rs' ! i)"
      by (simp add: b calc_bar_globals [OF g])
    with nth [OF i] show ?thesis by simp
  qed
  from len lab nth indep show ?thesis by blast
qed

text \<open>When a call of the loop returns, when it raises, and when the loop ends.\<close>

lemma calc_bar_returns:
  "(\<exists>r. calc_bar sb b = Inr r) \<longleftrightarrow> in_A_s sb / max (area b) (1 / 10 ^ 9) < FLT_OVERFLOW"
  unfolding calc_bar_def by (rule calc_for_bar_returns)

lemma calc_bar_raises:
  "calc_bar sb b = Inl e \<longleftrightarrow> n_bars (in_A_s sb) (area b) = Inl e"
  unfolding calc_bar_def
  by (auto simp: calc_for_bar_def spacing_in_eq Let_def split: sum.splits)

lemma rows_returns:
  "(\<exists>rs. rows sb = Inr rs) \<longleftrightarrow> (\<forall>b \<in> set (bars sb). \<exists>r. calc_bar sb b = Inr r)"
proof -
  have "(\<exists>rs. list_all2 (\<lambda>b r. calc_bar sb b = Inr r) bs rs)
          \<longleftrightarrow> (\<forall>b \<in> set bs. \<exists>r. calc_bar sb b = Inr r)" for bs
  proof (induction bs)
    case Nil
    then show ?case by simp
  next
    case (Cons b bs)
    then show ?case by (auto simp: list_all2_Cons1)
  qed
  then show ?thesis by (simp add: rows_Inr_iff)
qed

text \<open>Evaluating the script at a given sidebar.\<close>

lemmas script_defs = warns_def rows_def bars_def calc_bar_def default_sidebar_def

subsection \<open>The claims about the table and the warnings\<close>

text \<open>
  C8. With a required area of \<open>1e300\<close> and the default bars the first loop builds the
  five dictionaries, labelled 10M to 30M in this order. With the area of the 20M bar
  changed from 300 to 0, and nothing else, the call for 20M raises OverflowError, the
  loop ends there and \<open>rows\<close> is never built: the rows of the four other bars are gone
  too. (\<open>rows_five_in_order\<close> above describes the table whenever no call raises.)
\<close>

theorem zero_area_of_one_bar_empties_table:
  "map_sum id (map col_Bar) (rows (default_sidebar\<lparr>in_A_s := 10 ^ 300\<rparr>)) =
     Inr [''10M'', ''15M'', ''20M'', ''25M'', ''30M'']
   \<and> rows (default_sidebar\<lparr>in_A_s := 10 ^ 300, in_A20 := 0\<rparr>) = Inl OverflowError"
proof
  define sb where "sb = default_sidebar\<lparr>in_A_s := 10 ^ 300\<rparr>"
  have "\<forall>b \<in> set (bars sb). \<exists>r. calc_bar sb b = Inr r"
    unfolding calc_bar_returns
    by (simp add: sb_def bars_def default_sidebar_def FLT_OVERFLOW_def)
  then obtain rs where rs: "rows sb = Inr rs"
    unfolding rows_returns [symmetric] by blast
  from rows_labels [OF rs]
  show "map_sum id (map col_Bar) (rows (default_sidebar\<lparr>in_A_s := 10 ^ 300\<rparr>)) =
          Inr [''10M'', ''15M'', ''20M'', ''25M'', ''30M'']"
    unfolding sb_def [symmetric] rs by (simp add: labels_bars)
next
  define sb where "sb = default_sidebar\<lparr>in_A_s := 10 ^ 300, in_A20 := 0\<rparr>"
  define b10 where "b10 = \<lparr>label = ''10M'', dia = in_d10 sb, area = in_A10 sb, hook = in_h10 sb\<rparr>"
  define b15 where "b15 = \<lparr>label = ''15M'', dia = in_d15 sb, area = in_A15 sb, hook = in_h15 sb\<rparr>"
  define b20 where "b20 = \<lparr>label = ''20M'', dia = in_d20 sb, area = in_A20 sb, hook = in_h20 sb\<rparr>"
  have "\<exists>r. calc_bar sb b10 = Inr r"
    unfolding calc_bar_returns
    by (simp add: b10_def sb_def default_sidebar_def FLT_OVERFLOW_def)
  then obtain r10 where 1: "calc_bar sb b10 = Inr r10" by blast
  have "\<exists>r. calc_bar sb b15 = Inr r"
    unfolding calc_bar_returns
    by (simp add: b15_def sb_def default_sidebar_def FLT_OVERFLOW_def)
  then obtain r15 where 2: "calc_bar sb b15 = Inr r15" by blast
  have 3: "calc_bar sb b20 = Inl OverflowError"
    unfolding calc_bar_raises
    by (simp add: b20_def sb_def default_sidebar_def n_bars_def truediv_def math_ceil_def
        FLT_OVERFLOW_def)
  have "rows sb = rows_loop sb (b10 # b15 # b20 # tl (tl (tl (bars sb)))) []"
    by (simp add: rows_def bars_def b10_def b15_def b20_def)
  also have "\<dots> = Inl OverflowError"
    by (simp add: 1 2 3)
  finally show "rows (default_sidebar\<lparr>in_A_s := 10 ^ 300, in_A20 := 0\<rparr>) = Inl OverflowError"
    unfolding sb_def .
qed

text \<open>
  C4 (as the code has it). With the default inputs and a slab thickness of 30 every bar
  has a negative effective depth \<open>30 - dia/2 - 40\<close>, and each of the five labels receives
  the negative-depth message.
\<close>

theorem slab_30_all_bars_warned:
  "map_sum id negative_depth_labels (warns (default_sidebar\<lparr>in_t_slab_mm := 30.0\<rparr>)) =
     Inr [''10M'', ''15M'', ''20M'', ''25M'', ''30M'']"
  by (simp add: script_defs calc_defs)

text \<open>C4 as stated fails: 30M is not the only label that receives the message.\<close>

theorem slab_30_not_30M_only:
  "map_sum id negative_depth_labels (warns (default_sidebar\<lparr>in_t_slab_mm := 30.0\<rparr>)) \<noteq>
     Inr [''30M'']"
  by (simp add: script_defs calc_defs)

text \<open>
  C5. With the default inputs and a slab thickness of 45.625 the effective depth of the
  10M bar, \<open>45.625 - 11.3/2 - 40 = -0.025\<close>, is negative, and 10M receives no
  negative-depth message: the second loop tests \<open>r["d (mm)"]\<close>, which \<open>calc_for_bar\<close> has
  rounded to \<open>-0.0\<close>. The four other bars, with depths below \<open>-2\<close>, receive it.
\<close>

theorem slab_45_625_no_warning_for_10M:
  "d_effective_mm (in_t_slab_mm (default_sidebar\<lparr>in_t_slab_mm := 45.625\<rparr>))
                  (in_d10 (default_sidebar\<lparr>in_t_slab_mm := 45.625\<rparr>)) < 0
   \<and> map_sum id negative_depth_labels (warns (default_sidebar\<lparr>in_t_slab_mm := 45.625\<rparr>)) =
       Inr [''15M'', ''20M'', ''25M'', ''30M'']"
  by (simp add: script_defs calc_defs)

end
